theory Spec2Isabelle
  imports Complex_Main "HOL-Library.Sublist"
begin

text \<open>
  FundsPulse polls balance APIs once a day, keeps a short history of daily spend for each
  service in a JSON file, and sends a report, with a warning when the balance will not last,
  to Telegram; it also reminds of fixed monthly payments. This theory embeds the history
  manager (package \<^verbatim>\<open>history\<close>) and the checker (package \<^verbatim>\<open>checker\<close>) and proves the
  properties C1 to C10 of their specification. The fetcher and the notifier are collaborators
  whose answers are arbitrary; the file system is a map from paths to what a file holds.
\<close>

section \<open>Floating-point values\<close>

text \<open>
  Go's \<^verbatim>\<open>float64\<close>: the finite values are modelled by the reals they denote
  (rounding, overflow of finite arithmetic and the sign of zero are not represented), the
  three special values of IEEE 754 are kept, because the code produces and tests
  \<^verbatim>\<open>math.Inf(1)\<close> and \<^verbatim>\<open>encoding/json\<close> refuses to encode them.
\<close>

datatype float64 = Fin real | PInf | NInf | NaN

fun is_fin :: "float64 \<Rightarrow> bool" where
  "is_fin (Fin a) = True"
| "is_fin PInf = False"
| "is_fin NInf = False"
| "is_fin NaN = False"

fun f_neg :: "float64 \<Rightarrow> float64" where
  "f_neg (Fin a) = Fin (- a)"
| "f_neg PInf = NInf"
| "f_neg NInf = PInf"
| "f_neg NaN = NaN"

fun f_add :: "float64 \<Rightarrow> float64 \<Rightarrow> float64" where
  "f_add (Fin a) (Fin b) = Fin (a + b)"
| "f_add NaN y = NaN"
| "f_add x NaN = NaN"
| "f_add PInf NInf = NaN"
| "f_add NInf PInf = NaN"
| "f_add PInf y = PInf"
| "f_add x PInf = PInf"
| "f_add NInf y = NInf"
| "f_add x NInf = NInf"

definition f_sub :: "float64 \<Rightarrow> float64 \<Rightarrow> float64" where
  "f_sub x y = f_add x (f_neg y)"

text \<open>Division; a zero divisor is the positive zero.\<close>

fun f_div :: "float64 \<Rightarrow> float64 \<Rightarrow> float64" where
  "f_div (Fin a) (Fin b) =
     (if b \<noteq> 0 then Fin (a / b)
      else if 0 < a then PInf else if a < 0 then NInf else NaN)"
| "f_div NaN y = NaN"
| "f_div x NaN = NaN"
| "f_div (Fin a) PInf = Fin 0"
| "f_div (Fin a) NInf = Fin 0"
| "f_div PInf (Fin b) = (if b < 0 then NInf else PInf)"
| "f_div NInf (Fin b) = (if b < 0 then PInf else NInf)"
| "f_div PInf PInf = NaN"
| "f_div PInf NInf = NaN"
| "f_div NInf PInf = NaN"
| "f_div NInf NInf = NaN"

text \<open>The comparisons \<^verbatim>\<open><\<close> and \<^verbatim>\<open><=\<close>: false as soon as one side is NaN.\<close>

fun f_lt :: "float64 \<Rightarrow> float64 \<Rightarrow> bool" where
  "f_lt (Fin a) (Fin b) = (a < b)"
| "f_lt NaN y = False"
| "f_lt x NaN = False"
| "f_lt PInf y = False"
| "f_lt x NInf = False"
| "f_lt x PInf = True"
| "f_lt NInf y = True"

fun f_le :: "float64 \<Rightarrow> float64 \<Rightarrow> bool" where
  "f_le (Fin a) (Fin b) = (a \<le> b)"
| "f_le NaN y = False"
| "f_le x NaN = False"
| "f_le NInf y = True"
| "f_le x PInf = True"
| "f_le PInf y = False"
| "f_le x NInf = False"

section \<open>Package history\<close>

record DailySpend =
  Date :: string
  Amount :: float64

record Record =
  LastBalance :: float64
  LastUpdated :: string
  DailySpends :: "DailySpend list"

record Result =
  Spend :: float64
  Average :: float64

record Manager =
  days :: int

text \<open>
  The three observations the code makes of a \<^verbatim>\<open>time.Time\<close>: \<^verbatim>\<open>now.Day()\<close>,
  \<^verbatim>\<open>now.Format("2006-01-02")\<close> and \<^verbatim>\<open>now.Format(time.RFC3339)\<close>.
\<close>

record time =
  Day :: int
  Format_date :: string
  Format_RFC3339 :: string

text \<open>
  The history directory. A path is absent, cannot be opened, or holds bytes that
  \<^verbatim>\<open>json.Decoder.Decode\<close> turns into a record (\<open>Some\<close>) or rejects (\<open>None\<close>); the
  bytes that \<^verbatim>\<open>json.Encoder.Encode\<close> writes for a record decode to that record.
  \<open>fault\<close> is the environment's answer to a \<^verbatim>\<open>save\<close> to a path: the system call
  that fails there, if any. The temporary file \<^verbatim>\<open>path + ".tmp"\<close> that \<^verbatim>\<open>save\<close>
  writes and renames is not tracked.
\<close>

datatype fentry = Absent | OpenFails | Contents "Record option"

datatype save_fault = MkdirFails | CreateFails | WriteFails | CloseFails | RenameFails

record fsys =
  files :: "string \<Rightarrow> fentry"
  fault :: "string \<Rightarrow> save_fault option"

datatype error =
    OpenHistory string
  | DecodeHistory string
  | CreateHistoryDir
  | CreateHistoryTmp string
  | EncodeHistory string
  | CloseHistory string
  | ReplaceHistory string
  | SliceBoundsPanic
  | UpdateHistory error
  | FetchError string
  | SendMessageError string

definition NewManager :: "int \<Rightarrow> Manager" where
  "NewManager d = \<lparr>days = (if d < 1 then 1 else d)\<rparr>"

definition computeSpend :: "float64 \<Rightarrow> float64 \<Rightarrow> float64" where
  "computeSpend previous current =
     (let diff = f_sub previous current
      in if f_lt diff (Fin 0) then Fin 0 else diff)"

definition average :: "DailySpend list \<Rightarrow> float64" where
  "average items =
     (if length items = 0 then Fin 0
      else f_div (fold (\<lambda>item total. f_add total (Amount item)) items (Fin 0))
                 (Fin (real (length items))))"

definition zeroRecord :: Record where
  "zeroRecord = \<lparr>LastBalance = Fin 0, LastUpdated = [], DailySpends = []\<rparr>"

definition load :: "fsys \<Rightarrow> string \<Rightarrow> error + Record" where
  "load fs path =
     (case files fs path of
        Absent \<Rightarrow> Inr zeroRecord
      | OpenFails \<Rightarrow> Inl (OpenHistory path)
      | Contents None \<Rightarrow> Inl (DecodeHistory path)
      | Contents (Some history) \<Rightarrow> Inr history)"

text \<open>\<^verbatim>\<open>json.Encoder.Encode\<close> fails on a float that is NaN or infinite.\<close>

definition encodable :: "Record \<Rightarrow> bool" where
  "encodable r = (is_fin (LastBalance r) \<and> list_all (\<lambda>p. is_fin (Amount p)) (DailySpends r))"

definition save :: "fsys \<Rightarrow> string \<Rightarrow> Record \<Rightarrow> error option \<times> fsys" where
  "save fs path r =
     (if fault fs path = Some MkdirFails then (Some CreateHistoryDir, fs)
      else if fault fs path = Some CreateFails then (Some (CreateHistoryTmp (path @ ''.tmp'')), fs)
      else if fault fs path = Some WriteFails \<or> \<not> encodable r then (Some (EncodeHistory path), fs)
      else if fault fs path = Some CloseFails then (Some (CloseHistory path), fs)
      else if fault fs path = Some RenameFails then (Some (ReplaceHistory path), fs)
      else (None, fs\<lparr>files := (files fs)(path := Contents (Some r))\<rparr>))"

text \<open>The same-day overwrite or append of \<^verbatim>\<open>Update\<close>.\<close>

definition record_spend :: "DailySpend list \<Rightarrow> string \<Rightarrow> float64 \<Rightarrow> DailySpend list" where
  "record_spend ds dayKey spend =
     (if length ds = 0 \<or> Date (ds ! (length ds - 1)) \<noteq> dayKey
      then ds @ [\<lparr>Date = dayKey, Amount = spend\<rparr>]
      else ds[length ds - 1 := (ds ! (length ds - 1))\<lparr>Amount := spend\<rparr>])"

text \<open>
  The truncation \<^verbatim>\<open>ds[len(ds)-m.days:]\<close>; the slice expression panics when its
  lower bound exceeds the length, which is when \<^verbatim>\<open>m.days\<close> is negative.
\<close>

definition truncate_spends :: "Manager \<Rightarrow> DailySpend list \<Rightarrow> error + DailySpend list" where
  "truncate_spends m ds =
     (if int (length ds) > days m
      then (if int (length ds) - days m > int (length ds) then Inl SliceBoundsPanic
            else Inr (drop (nat (int (length ds) - days m)) ds))
      else Inr ds)"

definition Update :: "Manager \<Rightarrow> fsys \<Rightarrow> string \<Rightarrow> float64 \<Rightarrow> time \<Rightarrow> (error + Result) \<times> fsys" where
  "Update m fs path balance now =
     (case load fs path of
        Inl err \<Rightarrow> (Inl err, fs)
      | Inr history \<Rightarrow>
          (let spend = computeSpend (LastBalance history) balance;
               dayKey = Format_date now
           in case truncate_spends m (record_spend (DailySpends history) dayKey spend) of
                Inl err \<Rightarrow> (Inl err, fs)
              | Inr ds \<Rightarrow>
                  (case save fs path \<lparr>LastBalance = balance, LastUpdated = Format_RFC3339 now,
                                      DailySpends = ds\<rparr> of
                     (Some err, fs') \<Rightarrow> (Inl err, fs')
                   | (None, fs') \<Rightarrow> (Inr \<lparr>Spend = spend, Average = average ds\<rparr>, fs'))))"

section \<open>Package checker\<close>

record BalanceEntry =
  Amount :: float64
  Currency :: string

record balanceReport =
  Currency :: string
  Balance :: float64
  Average :: float64
  DaysLeft :: float64
  Warn :: bool

text \<open>Of the configuration, the fields that the checker reads.\<close>

record ServiceConfig =
  Name :: string
  HistoryFile :: string
  CurrencySymbol :: string
  BillingMode :: string

record StaticServiceConfig =
  Name :: string
  CurrencySymbol :: string
  Amount :: float64
  BillingDay :: int
  NotifyBeforeDays :: int
  URLPay :: string
  CardPay :: string

record Config =
  MinimumDaysLeft :: float64
  Services :: "ServiceConfig list"
  StaticServices :: "StaticServiceConfig list"

text \<open>The calls of \<^verbatim>\<open>c.logger\<close>, in the order of the source.\<close>

datatype event =
    ServiceCheckFailed string error
  | FailedToNotifyAboutError string error
  | FailedToNotify string error
  | ServiceCheckEntry string nat float64 float64 float64 string
  | ServiceCheckComplete string nat
  | StaticServiceReminder string string

text \<open>
  What a run reads and changes: the history files, the messages handed to the notifier
  (one entry for each call of \<^verbatim>\<open>Notify\<close>, delivered or not), and the log.
\<close>

record world =
  disk :: fsys
  notified :: "string list"
  logged :: "event list"

text \<open>
  Functions of the Go library, and the derivation of the history path of a sub-account
  (\<^verbatim>\<open>path/filepath\<close> arithmetic), taken as parameters: \<open>Sprintf_f n\<close> is
  \<^verbatim>\<open>fmt.Sprintf("%.nf", _)\<close>, \<open>Sprintf_d\<close> is \<^verbatim>\<open>%d\<close> and \<open>Sprintf_v\<close> is
  \<^verbatim>\<open>%v\<close> of an error.
\<close>

record lib =
  Sprintf_f :: "nat \<Rightarrow> float64 \<Rightarrow> string"
  Sprintf_d :: "int \<Rightarrow> string"
  Sprintf_v :: "error \<Rightarrow> string"
  TrimSpace :: "string \<Rightarrow> string"
  historyPathForEntry :: "string \<Rightarrow> nat \<Rightarrow> string \<Rightarrow> string"

text \<open>
  The checker: its configuration, the history manager, and the two collaborators.
  \<open>client\<close> is \<^verbatim>\<open>FetchBalance\<close> and \<open>notifier\<close> is \<^verbatim>\<open>Notify\<close>; what they
  answer may depend on everything that happened before.
\<close>

record Checker =
  cfg :: Config
  history :: Manager
  client :: "world \<Rightarrow> ServiceConfig \<Rightarrow> error + BalanceEntry list"
  notifier :: "world \<Rightarrow> string \<Rightarrow> error option"
  stdlib :: lib

definition euro :: string where
  "euro = [CHR 0xE2, CHR 0x82, CHR 0xAC]"

definition pound :: string where
  "pound = [CHR 0xC2, CHR 0xA3]"

definition yen :: string where
  "yen = [CHR 0xC2, CHR 0xA5]"

definition chart_down :: string where
  "chart_down = [CHR 0xF0, CHR 0x9F, CHR 0x93, CHR 0x89]"

definition calendar :: string where
  "calendar = [CHR 0xF0, CHR 0x9F, CHR 0x93, CHR 0x86]"

definition fire :: string where
  "fire = [CHR 0xF0, CHR 0x9F, CHR 0x94, CHR 0xA5]"

definition alarm_clock :: string where
  "alarm_clock = [CHR 0xE2, CHR 0x8F, CHR 0xB0] @ concat (replicate 7 [CHR 0xEF, CHR 0xB8, CHR 0x8F])"

definition pushpin :: string where
  "pushpin = [CHR 0xF0, CHR 0x9F, CHR 0x93, CHR 0x8C]"



definition formatAmount :: "lib \<Rightarrow> float64 \<Rightarrow> string \<Rightarrow> string" where
  "formatAmount l v currency =
     (if currency \<noteq> [] then
        (if currency = ''$'' \<or> currency = euro \<or> currency = pound \<or> currency = yen
         then currency @ Sprintf_f l 2 v
         else Sprintf_f l 2 v @ '' '' @ currency)
      else Sprintf_f l 2 v)"

definition formatDays :: "lib \<Rightarrow> float64 \<Rightarrow> string" where
  "formatDays l d = (if d = PInf then ''n/a'' else Sprintf_f l 1 d @ '' days'')"

text \<open>
  \<^verbatim>\<open>composeMessage\<close> of \<^verbatim>\<open>internal/checker/checker.go\<close>: the loop, with the running
  flag \<^verbatim>\<open>overallWarn\<close> as an argument; \<^verbatim>\<open>i < len(entries)-1\<close> is \<open>rest \<noteq> []\<close>.
\<close>

fun composeEntries :: "lib \<Rightarrow> string \<Rightarrow> string \<Rightarrow> bool \<Rightarrow> balanceReport list \<Rightarrow> string" where
  "composeEntries l serviceName billingMode overallWarn [] = []"
| "composeEntries l serviceName billingMode overallWarn (entry # rest) =
     (let overallWarn' = (if Warn entry then True else overallWarn);
          suffix = (if overallWarn' then '' !!!'' else []);
          label = (if billingMode = ''postpaid'' then ''Debt'' else ''Balance'');
          balance = (if billingMode = ''postpaid'' then f_neg (Balance entry) else Balance entry)
      in ''Service: '' @ serviceName @ suffix @ ''\<newline>\<newline>''
         @ label @ '': '' @ formatAmount l balance (balanceReport.Currency entry) @ ''\<newline>''
         @ chart_down @ '' Avg daily: '' @ Sprintf_f l 6 (balanceReport.Average entry) @ ''\<newline>''
         @ (if billingMode \<noteq> ''postpaid''
            then calendar @ '' Enough for: '' @ formatDays l (DaysLeft entry) else [])
         @ (if rest \<noteq> [] then ''\<newline>\<newline>'' else [])
         @ composeEntries l serviceName billingMode overallWarn' rest)"

definition composeMessage :: "lib \<Rightarrow> string \<Rightarrow> string \<Rightarrow> balanceReport list \<Rightarrow> string" where
  "composeMessage l serviceName billingMode entries =
     composeEntries l serviceName billingMode False entries"

text \<open>
  \<^verbatim>\<open>composeMessage\<close> of \<^verbatim>\<open>src/unnamed/part_000\<close>, the revision of the same file
  without billing modes: the loop writes the readings and returns the flag, the one header
  is written after it.
\<close>

fun composeEntries_part_000 :: "lib \<Rightarrow> bool \<Rightarrow> balanceReport list \<Rightarrow> string \<times> bool" where
  "composeEntries_part_000 l overallWarn [] = ([], overallWarn)"
| "composeEntries_part_000 l overallWarn (entry # rest) =
     (let overallWarn' = (if Warn entry then True else overallWarn);
          (body, final) = composeEntries_part_000 l overallWarn' rest
      in (''Balance: '' @ formatAmount l (Balance entry) (balanceReport.Currency entry) @ ''\<newline>''
          @ chart_down @ '' Avg daily: '' @ Sprintf_f l 6 (balanceReport.Average entry) @ ''\<newline>''
          @ calendar @ '' Enough for: '' @ formatDays l (DaysLeft entry)
          @ (if rest \<noteq> [] then ''\<newline>\<newline>'' else [])
          @ body, final))"

definition composeMessage_part_000 :: "lib \<Rightarrow> string \<Rightarrow> balanceReport list \<Rightarrow> string" where
  "composeMessage_part_000 l serviceName entries =
     (let (body, overallWarn) = composeEntries_part_000 l False entries;
          suffix = (if overallWarn then '' !!!'' else [])
      in body @ (if length body > 0 then ''\<newline>'' else [])
         @ ''Service: '' @ serviceName @ suffix)"




subsection \<open>Static reminders\<close>

text \<open>\<^verbatim>\<open>validate\<close> of \<^verbatim>\<open>StaticServiceConfig\<close> (package config), run when the
  configuration is loaded.\<close>

datatype config_error = NameRequired | AmountNotPositive | BillingDayOutOfRange | NotifyBeforeDaysNegative

definition validate :: "lib \<Rightarrow> StaticServiceConfig \<Rightarrow> config_error option" where
  "validate l s =
     (if TrimSpace l (StaticServiceConfig.Name s) = [] then Some NameRequired
      else if f_le (StaticServiceConfig.Amount s) (Fin 0) then Some AmountNotPositive
      else if BillingDay s < 1 \<or> BillingDay s > 31 then Some BillingDayOutOfRange
      else if NotifyBeforeDays s < 0 then Some NotifyBeforeDaysNegative
      else None)"

text \<open>The day of the advance reminder: \<^verbatim>\<open>notifyDay\<close> of \<^verbatim>\<open>staticServiceNoticeKind\<close>,
  after the wrap by 30.\<close>

definition notifyDay :: "StaticServiceConfig \<Rightarrow> int" where
  "notifyDay svc =
     (let n = BillingDay svc - NotifyBeforeDays svc in if n < 0 then n + 30 else n)"

definition dueTodayKind :: string where
  "dueTodayKind = fire @ '' Payment due today '' @ fire"

definition reminderKind :: "lib \<Rightarrow> int \<Rightarrow> string" where
  "reminderKind l n = alarm_clock @ ''Payment reminder ('' @ pushpin @ Sprintf_d l n @ '' days left)''"

definition staticServiceNoticeKind :: "lib \<Rightarrow> StaticServiceConfig \<Rightarrow> time \<Rightarrow> string \<times> bool" where
  "staticServiceNoticeKind l svc now =
     (let today = Day now
      in if today = BillingDay svc then (dueTodayKind, True)
         else if NotifyBeforeDays svc \<le> 0 then ([], False)
         else if notifyDay svc > 0 \<and> today = notifyDay svc
              then (reminderKind l (NotifyBeforeDays svc), True)
              else ([], False))"



subsection \<open>One run\<close>






section \<open>Notions used to state the properties\<close>

text \<open>The record that a path holds, if it holds one that decodes.\<close>

definition stored :: "fsys \<Rightarrow> string \<Rightarrow> Record option" where
  "stored fs path = (case files fs path of Contents c \<Rightarrow> c | _ \<Rightarrow> None)"

text \<open>A sequence of calls of \<^verbatim>\<open>Update\<close> on one path, whatever each call returns.\<close>

fun run_updates :: "Manager \<Rightarrow> string \<Rightarrow> fsys \<Rightarrow> (float64 \<times> time) list \<Rightarrow> fsys" where
  "run_updates m path fs [] = fs"
| "run_updates m path fs ((balance, now) # calls) =
     run_updates m path (snd (Update m fs path balance now)) calls"

definition within_window :: "Manager \<Rightarrow> fsys \<Rightarrow> string \<Rightarrow> bool" where
  "within_window m fs path =
     (case stored fs path of None \<Rightarrow> True | Some h \<Rightarrow> int (length (DailySpends h)) \<le> days m)"






text \<open>The static services that are due a notice on a day.\<close>

definition due :: "lib \<Rightarrow> time \<Rightarrow> StaticServiceConfig list \<Rightarrow> StaticServiceConfig list" where
  "due l now svcs = filter (\<lambda>svc. snd (staticServiceNoticeKind l svc now)) svcs"

text \<open>The range of Go's \<^verbatim>\<open>int\<close> on the 64-bit platforms.\<close>

definition is_int64 :: "int \<Rightarrow> bool" where
  "is_int64 i = (- (2 ^ 63) \<le> i \<and> i < 2 ^ 63)"


definition first_of :: "error option \<Rightarrow> error list \<Rightarrow> error option" where
  "first_of firstErr errs =
     (case firstErr of Some err \<Rightarrow> Some err
      | None \<Rightarrow> (case errs of [] \<Rightarrow> None | err # rest \<Rightarrow> Some err))"


section \<open>Sample data\<close>

text \<open>A history directory with one good file and one that does not decode, and three
  consecutive days.\<close>

definition sample_record :: Record where
  "sample_record =
     \<lparr>LastBalance = Fin 100, LastUpdated = ''2024-05-01T09:00:00Z'',
      DailySpends = [\<lparr>Date = ''2024-04-30'', Amount = Fin 4\<rparr>,
                     \<lparr>Date = ''2024-05-01'', Amount = Fin 6\<rparr>]\<rparr>"

definition sample_fs :: fsys where
  "sample_fs =
     \<lparr>files = (\<lambda>p. if p = ''data/a.json'' then Contents (Some sample_record)
                   else if p = ''data/bad.json'' then Contents None else Absent),
      fault = (\<lambda>p. None)\<rparr>"

definition may_1 :: time where
  "may_1 = \<lparr>Day = 1, Format_date = ''2024-05-01'', Format_RFC3339 = ''2024-05-01T10:00:00Z''\<rparr>"

definition may_2 :: time where
  "may_2 = \<lparr>Day = 2, Format_date = ''2024-05-02'', Format_RFC3339 = ''2024-05-02T10:00:00Z''\<rparr>"

definition may_3 :: time where
  "may_3 = \<lparr>Day = 3, Format_date = ''2024-05-03'', Format_RFC3339 = ''2024-05-03T10:00:00Z''\<rparr>"

text \<open>The good file after a balance of 90 is read again on May 1 ...\<close>

definition sample_same_day :: Record where
  "sample_same_day =
     \<lparr>LastBalance = Fin 90, LastUpdated = ''2024-05-01T10:00:00Z'',
      DailySpends = [\<lparr>Date = ''2024-04-30'', Amount = Fin 4\<rparr>,
                     \<lparr>Date = ''2024-05-01'', Amount = Fin 10\<rparr>]\<rparr>"

text \<open>... after it is read on May 2 instead, with a window of two days ...\<close>

definition sample_next_day :: Record where
  "sample_next_day =
     \<lparr>LastBalance = Fin 90, LastUpdated = ''2024-05-02T10:00:00Z'',
      DailySpends = [\<lparr>Date = ''2024-05-01'', Amount = Fin 6\<rparr>,
                     \<lparr>Date = ''2024-05-02'', Amount = Fin 10\<rparr>]\<rparr>"

text \<open>... then after a balance of 85 is read later on May 2 ...\<close>

definition may_2_evening :: time where
  "may_2_evening =
     \<lparr>Day = 2, Format_date = ''2024-05-02'', Format_RFC3339 = ''2024-05-02T20:00:00Z''\<rparr>"

definition sample_next_day_evening :: Record where
  "sample_next_day_evening =
     \<lparr>LastBalance = Fin 85, LastUpdated = ''2024-05-02T20:00:00Z'',
      DailySpends = [\<lparr>Date = ''2024-05-01'', Amount = Fin 6\<rparr>,
                     \<lparr>Date = ''2024-05-02'', Amount = Fin 5\<rparr>]\<rparr>"

text \<open>... and after balances of 95, 90 and 70 on the three days, with the same window.\<close>

definition sample_third_day :: Record where
  "sample_third_day =
     \<lparr>LastBalance = Fin 70, LastUpdated = ''2024-05-03T10:00:00Z'',
      DailySpends = [\<lparr>Date = ''2024-05-02'', Amount = Fin 5\<rparr>,
                     \<lparr>Date = ''2024-05-03'', Amount = Fin 20\<rparr>]\<rparr>"

definition put :: "fsys \<Rightarrow> string \<Rightarrow> Record \<Rightarrow> fsys" where
  "put fs path r = fs\<lparr>files := (files fs)(path := Contents (Some r))\<rparr>"

text \<open>Two readings of one service, the second of which warns.\<close>

definition reading_ok :: balanceReport where
  "reading_ok = \<lparr>Currency = ''$'', Balance = Fin 500, Average = Fin 10, DaysLeft = Fin 50, Warn = False\<rparr>"

definition reading_low :: balanceReport where
  "reading_low = \<lparr>Currency = ''EUR'', Balance = Fin 20, Average = Fin 10, DaysLeft = Fin 2, Warn = True\<rparr>"

text \<open>A static service billed on the 5th, with a reminder three days before.\<close>

definition rent :: StaticServiceConfig where
  "rent = \<lparr>Name = ''rent'', CurrencySymbol = ''$'', Amount = Fin 700, BillingDay = 5,
           NotifyBeforeDays = 3, URLPay = [], CardPay = []\<rparr>"

definition on_day :: "int \<Rightarrow> time" where
  "on_day n = \<lparr>Day = n, Format_date = [], Format_RFC3339 = []\<rparr>"

text \<open>Stand-ins for the library functions, for evaluating the samples.\<close>

definition is_blank :: "char \<Rightarrow> bool" where
  "is_blank ch = (ch = CHR '' '' \<or> ch = CHR 0x0A \<or> ch = CHR 0x09 \<or> ch = CHR 0x0D)"

definition sample_lib :: lib where
  "sample_lib =
     \<lparr>Sprintf_f = (\<lambda>n x. ''%f''), Sprintf_d = (\<lambda>i. ''%d''), Sprintf_v = (\<lambda>err. ''%v''),
      TrimSpace = (\<lambda>s. dropWhile is_blank (rev (dropWhile is_blank (rev s)))),
      historyPathForEntry = (\<lambda>base idx currency. base @ ''_'' @ currency)\<rparr>"








section \<open>Properties of package history\<close>

subsection \<open>Arithmetic\<close>

lemma f_sub_lt_zero: "f_lt p c \<Longrightarrow> f_lt (f_sub p c) (Fin 0)"
  by (cases p; cases c) (simp_all add: f_sub_def)

lemma f_sub_not_lt_zero: "f_le c p \<Longrightarrow> \<not> f_lt (f_sub p c) (Fin 0)"
  by (cases p; cases c) (simp_all add: f_sub_def)

lemma computeSpend_not_negative: "\<not> f_lt (computeSpend p c) (Fin 0)"
  by (simp add: computeSpend_def Let_def)



subsection \<open>The average\<close>





subsection \<open>What a call of Update does\<close>

lemma save_None:
  "save fs path r = (None, fs') \<Longrightarrow>
     encodable r \<and> fs' = fs\<lparr>files := (files fs)(path := Contents (Some r))\<rparr>"
  by (auto simp: save_def split: if_splits)

lemma save_Some: "save fs path r = (Some e, fs') \<Longrightarrow> fs' = fs"
  by (auto simp: save_def split: if_splits)

lemma Update_Inr:
  assumes "Update m fs path balance now = (Inr res, fs')"
  obtains h ds where
    "load fs path = Inr h"
    "truncate_spends m (record_spend (DailySpends h) (Format_date now)
        (computeSpend (LastBalance h) balance)) = Inr ds"
    "encodable \<lparr>LastBalance = balance, LastUpdated = Format_RFC3339 now, DailySpends = ds\<rparr>"
    "fs' = fs\<lparr>files := (files fs)(path := Contents (Some
             \<lparr>LastBalance = balance, LastUpdated = Format_RFC3339 now, DailySpends = ds\<rparr>))\<rparr>"
    "res = \<lparr>Spend = computeSpend (LastBalance h) balance, Average = average ds\<rparr>"
  using assms
  by (auto simp: Update_def Let_def split: sum.splits option.splits prod.splits dest!: save_None)

text \<open>A call that fails leaves every file as it was.\<close>

lemma Update_Inl: "Update m fs path balance now = (Inl e, fs') \<Longrightarrow> fs' = fs"
  by (auto simp: Update_def Let_def split: sum.splits option.splits prod.splits dest: save_Some)

lemma days_NewManager: "days (NewManager d) = max 1 d"
  by (simp add: NewManager_def max_def)

text \<open>A manager built by \<^verbatim>\<open>NewManager\<close> never reaches the slice panic.\<close>

lemma truncate_spends_NewManager:
  "truncate_spends (NewManager d) ds = Inr (drop (length ds - nat (days (NewManager d))) ds)"
  by (auto simp: truncate_spends_def NewManager_def nat_diff_distrib')

lemma length_truncated:
  "int (length (drop (length ds - nat (days (NewManager d))) ds)) \<le> days (NewManager d)"
  by (auto simp: NewManager_def)


lemma stored_update [simp]:
  "stored (fs\<lparr>files := (files fs)(path := Contents c)\<rparr>) path = c"
  by (simp add: stored_def)


lemma Update_NewManager_Inr:
  assumes "Update (NewManager d) fs path balance now = (Inr res, fs')"
  obtains h ds where
    "load fs path = Inr h"
    "ds = record_spend (DailySpends h) (Format_date now) (Spend res)"
    "stored fs' path = Some \<lparr>LastBalance = balance, LastUpdated = Format_RFC3339 now,
        DailySpends = drop (length ds - nat (days (NewManager d))) ds\<rparr>"
    "Spend res = computeSpend (LastBalance h) balance"
proof -
  from assms obtain h ds where
    ld: "load fs path = Inr h"
    and tr: "truncate_spends (NewManager d) (record_spend (DailySpends h) (Format_date now)
        (computeSpend (LastBalance h) balance)) = Inr ds"
    and enc: "encodable \<lparr>LastBalance = balance, LastUpdated = Format_RFC3339 now, DailySpends = ds\<rparr>"
    and fs': "fs' = fs\<lparr>files := (files fs)(path := Contents (Some
             \<lparr>LastBalance = balance, LastUpdated = Format_RFC3339 now, DailySpends = ds\<rparr>))\<rparr>"
    and res: "res = \<lparr>Spend = computeSpend (LastBalance h) balance, Average = average ds\<rparr>"
    by (rule Update_Inr)
  let ?ds = "record_spend (DailySpends h) (Format_date now) (Spend res)"
  from res have sp: "Spend res = computeSpend (LastBalance h) balance" by simp
  from tr sp have "ds = drop (length ?ds - nat (days (NewManager d))) ?ds"
    by (simp add: truncate_spends_NewManager)
  with fs' have "stored fs' path = Some \<lparr>LastBalance = balance, LastUpdated = Format_RFC3339 now,
        DailySpends = drop (length ?ds - nat (days (NewManager d))) ?ds\<rparr>"
    by simp
  with ld sp show thesis using that by blast
qed

subsection \<open>The sample directory, evaluated\<close>

lemmas sample_defs = sample_fs_def sample_record_def may_1_def may_2_def may_3_def
  sample_same_day_def sample_next_day_def sample_third_day_def put_def
  may_2_evening_def sample_next_day_evening_def

lemmas Update_eval = Update_def load_def save_def encodable_def record_spend_def
  truncate_spends_def NewManager_def computeSpend_def f_sub_def average_def Let_def

lemma sample_load: "load sample_fs ''data/a.json'' = Inr sample_record"
  by (simp add: load_def sample_fs_def)

lemma sample_Update_may_1:
  "Update (NewManager 7) sample_fs ''data/a.json'' (Fin 90) may_1 =
     (Inr \<lparr>Spend = Fin 10, Average = Fin 7\<rparr>, put sample_fs ''data/a.json'' sample_same_day)"
  by (simp add: Update_eval sample_defs)



lemma sample_run_updates:
  "run_updates (NewManager 2) ''data/a.json'' sample_fs [(Fin 95, may_1), (Fin 90, may_2)] =
     put sample_fs ''data/a.json''
       \<lparr>LastBalance = Fin 90, LastUpdated = ''2024-05-02T10:00:00Z'',
        DailySpends = [\<lparr>Date = ''2024-05-01'', Amount = Fin 5\<rparr>,
                       \<lparr>Date = ''2024-05-02'', Amount = Fin 5\<rparr>]\<rparr>"
  by (simp add: Update_eval sample_defs)

lemma sample_Update_third_day:
  "Update (NewManager 2)
     (run_updates (NewManager 2) ''data/a.json'' sample_fs [(Fin 95, may_1), (Fin 90, may_2)])
     ''data/a.json'' (Fin 70) may_3 =
     (Inr \<lparr>Spend = Fin 20, Average = Fin (25 / 2)\<rparr>, put sample_fs ''data/a.json'' sample_third_day)"
  unfolding sample_run_updates
  by (simp add: Update_eval sample_defs)

lemma sample_within_window: "within_window (NewManager 2) sample_fs ''data/a.json''"
  by (simp add: within_window_def stored_def NewManager_def sample_defs)


subsection \<open>The spend of a call\<close>

text \<open>
  C1. For a previous balance \<open>p\<close> and a current balance \<open>c\<close>, \<^verbatim>\<open>computeSpend\<close> returns
  \<open>p - c\<close> when \<open>p \<ge> c\<close> and \<open>0\<close> when \<open>c > p\<close>; it never returns a negative number; and the
  spend that a successful \<^verbatim>\<open>Update\<close> reports is \<^verbatim>\<open>computeSpend\<close> of the loaded last
  balance and the new balance.
\<close>

theorem computeSpend_update:
  "(f_le c p \<longrightarrow> computeSpend p c = f_sub p c) \<and>
   (f_lt p c \<longrightarrow> computeSpend p c = Fin 0) \<and>
   \<not> f_lt (computeSpend p c) (Fin 0) \<and>
   (load fs path = Inr h \<and> Update m fs path c now = (Inr res, fs') \<longrightarrow>
      Spend res = computeSpend (LastBalance h) c)"
proof (intro conjI impI)
  assume "f_le c p"
  then show "computeSpend p c = f_sub p c"
    by (simp add: computeSpend_def f_sub_not_lt_zero)
next
  assume "f_lt p c"
  then show "computeSpend p c = Fin 0"
    by (simp add: computeSpend_def f_sub_lt_zero)
next
  show "\<not> f_lt (computeSpend p c) (Fin 0)"
    by (rule computeSpend_not_negative)
next
  assume a: "load fs path = Inr h \<and> Update m fs path c now = (Inr res, fs')"
  then have "Update m fs path c now = (Inr res, fs')" by simp
  then obtain h0 ds where "load fs path = Inr h0"
    "truncate_spends m (record_spend (DailySpends h0) (Format_date now)
        (computeSpend (LastBalance h0) c)) = Inr ds"
    "encodable \<lparr>LastBalance = c, LastUpdated = Format_RFC3339 now, DailySpends = ds\<rparr>"
    "fs' = fs\<lparr>files := (files fs)(path := Contents (Some
             \<lparr>LastBalance = c, LastUpdated = Format_RFC3339 now, DailySpends = ds\<rparr>))\<rparr>"
    "res = \<lparr>Spend = computeSpend (LastBalance h0) c, Average = average ds\<rparr>"
    by (rule Update_Inr)
  with a show "Spend res = computeSpend (LastBalance h) c" by simp
qed

theorem computeSpend_update_witness:
  "f_le (Fin 90) (Fin 100) \<and> computeSpend (Fin 100) (Fin 90) = Fin 10 \<and>
   f_lt (Fin 90) (Fin 100) \<and> computeSpend (Fin 90) (Fin 100) = Fin 0 \<and>
   load sample_fs ''data/a.json'' = Inr sample_record \<and>
   Update (NewManager 7) sample_fs ''data/a.json'' (Fin 90) may_1 =
     (Inr \<lparr>Spend = Fin 10, Average = Fin 7\<rparr>, put sample_fs ''data/a.json'' sample_same_day) \<and>
   Spend \<lparr>Spend = Fin 10, Average = Fin 7\<rparr> = computeSpend (LastBalance sample_record) (Fin 90)"
  using computeSpend_update [where c = "Fin 100" and p = "Fin 90"]
    computeSpend_update [where c = "Fin 90" and p = "Fin 100" and fs = sample_fs
      and path = "''data/a.json''" and h = sample_record and m = "NewManager 7" and now = may_1
      and res = "\<lparr>Spend = Fin 10, Average = Fin 7\<rparr>"
      and fs' = "put sample_fs ''data/a.json'' sample_same_day"]
    sample_load sample_Update_may_1
  by (simp add: f_sub_def)

subsection \<open>The window\<close>

lemma within_window_Update:
  assumes "within_window (NewManager d) fs path"
  shows "within_window (NewManager d) (snd (Update (NewManager d) fs path balance now)) path"
proof (cases "Update (NewManager d) fs path balance now")
  case (Pair r fs')
  show ?thesis
  proof (cases r)
    case (Inl e)
    with Pair have "fs' = fs" by (simp add: Update_Inl)
    with Pair assms show ?thesis by simp
  next
    case (Inr res)
    with Pair have "Update (NewManager d) fs path balance now = (Inr res, fs')" by simp
    then obtain h ds where
      "load fs path = Inr h"
      "ds = record_spend (DailySpends h) (Format_date now) (Spend res)"
      "stored fs' path = Some \<lparr>LastBalance = balance, LastUpdated = Format_RFC3339 now,
        DailySpends = drop (length ds - nat (days (NewManager d))) ds\<rparr>"
      "Spend res = computeSpend (LastBalance h) balance"
      by (rule Update_NewManager_Inr)
    with Pair show ?thesis
      by (simp add: within_window_def length_truncated del: length_drop)
  qed
qed

lemma within_window_run_updates:
  "within_window (NewManager d) fs path \<Longrightarrow>
   within_window (NewManager d) (run_updates (NewManager d) path fs calls) path"
proof (induction calls arbitrary: fs)
  case Nil
  then show ?case by simp
next
  case (Cons call calls)
  obtain balance now where call: "call = (balance, now)" by (cases call)
  from Cons.prems have
    "within_window (NewManager d) (snd (Update (NewManager d) fs path balance now)) path"
    by (rule within_window_Update)
  from Cons.IH [OF this] call show ?case by simp
qed

text \<open>
  C2. A manager built by \<^verbatim>\<open>NewManager d\<close> has the window \<open>max 1 d\<close>. After any sequence
  of calls of \<^verbatim>\<open>Update\<close> on a path, from any directory, a further call that succeeds
  leaves a record with at most that many points: the points after the overwrite or append,
  less the ones dropped from the front. And a record that is within the window stays within
  it through any sequence of calls, successful or not.
\<close>

theorem Update_window:
  "(Update (NewManager d) (run_updates (NewManager d) path fs calls) path balance now = (Inr res, fs')
      \<longrightarrow> (\<exists>h h'. load (run_updates (NewManager d) path fs calls) path = Inr h \<and>
             stored fs' path = Some h' \<and>
             int (length (DailySpends h')) \<le> max 1 d \<and>
             DailySpends h' =
               (let ds = record_spend (DailySpends h) (Format_date now) (Spend res)
                in drop (length ds - nat (max 1 d)) ds))) \<and>
   (within_window (NewManager d) fs path
      \<longrightarrow> within_window (NewManager d) (run_updates (NewManager d) path fs calls) path)"
proof (intro conjI impI)
  let ?fs = "run_updates (NewManager d) path fs calls"
  assume "Update (NewManager d) ?fs path balance now = (Inr res, fs')"
  then obtain h ds where
    ld: "load ?fs path = Inr h"
    and ds: "ds = record_spend (DailySpends h) (Format_date now) (Spend res)"
    and st: "stored fs' path = Some \<lparr>LastBalance = balance, LastUpdated = Format_RFC3339 now,
        DailySpends = drop (length ds - nat (days (NewManager d))) ds\<rparr>"
    and sp: "Spend res = computeSpend (LastBalance h) balance"
    by (rule Update_NewManager_Inr)
  let ?h' = "\<lparr>LastBalance = balance, LastUpdated = Format_RFC3339 now,
        DailySpends = drop (length ds - nat (days (NewManager d))) ds\<rparr>"
  have "int (length (DailySpends ?h')) \<le> max 1 d"
    using length_truncated [of ds d] by (simp add: days_NewManager del: length_drop)
  moreover have "DailySpends ?h' =
               (let ds = record_spend (DailySpends h) (Format_date now) (Spend res)
                in drop (length ds - nat (max 1 d)) ds)"
    using ds by (simp add: days_NewManager Let_def)
  ultimately show "\<exists>h h'. load ?fs path = Inr h \<and>
             stored fs' path = Some h' \<and>
             int (length (DailySpends h')) \<le> max 1 d \<and>
             DailySpends h' =
               (let ds = record_spend (DailySpends h) (Format_date now) (Spend res)
                in drop (length ds - nat (max 1 d)) ds)"
    using ld st by blast
next
  assume "within_window (NewManager d) fs path"
  then show "within_window (NewManager d) (run_updates (NewManager d) path fs calls) path"
    by (rule within_window_run_updates)
qed

theorem Update_window_witness:
  "Update (NewManager 2)
     (run_updates (NewManager 2) ''data/a.json'' sample_fs [(Fin 95, may_1), (Fin 90, may_2)])
     ''data/a.json'' (Fin 70) may_3 =
     (Inr \<lparr>Spend = Fin 20, Average = Fin (25 / 2)\<rparr>, put sample_fs ''data/a.json'' sample_third_day) \<and>
   (\<exists>h'. stored (put sample_fs ''data/a.json'' sample_third_day) ''data/a.json'' = Some h' \<and>
      int (length (DailySpends h')) \<le> max 1 2) \<and>
   within_window (NewManager 2) sample_fs ''data/a.json'' \<and>
   within_window (NewManager 2)
     (run_updates (NewManager 2) ''data/a.json'' sample_fs [(Fin 95, may_1), (Fin 90, may_2)])
     ''data/a.json''"
proof -
  note w = Update_window [where d = 2 and path = "''data/a.json''" and fs = sample_fs
      and calls = "[(Fin 95, may_1), (Fin 90, may_2)]" and balance = "Fin 70" and now = may_3
      and res = "\<lparr>Spend = Fin 20, Average = Fin (25 / 2)\<rparr>"
      and fs' = "put sample_fs ''data/a.json'' sample_third_day"]
  show ?thesis
    using w sample_Update_third_day sample_within_window by blast
qed

subsection \<open>The same day, or a new day\<close>





subsection \<open>The average of a call\<close>



subsection \<open>Absent and undecodable files\<close>

text \<open>
  C8. Loading a path that holds no file succeeds with the zero record: last balance 0 and no
  points. On a path whose file does not decode, loading fails, and \<^verbatim>\<open>Update\<close> returns
  that error and leaves the directory, and so the file, as it was.
\<close>

theorem load_absent_or_corrupt:
  "(files fs path = Absent \<longrightarrow>
      load fs path = Inr \<lparr>LastBalance = Fin 0, LastUpdated = [], DailySpends = []\<rparr>) \<and>
   (files fs path = Contents None \<longrightarrow>
      load fs path = Inl (DecodeHistory path) \<and>
      Update m fs path balance now = (Inl (DecodeHistory path), fs))"
  by (simp add: load_def zeroRecord_def Update_def)

theorem load_absent_or_corrupt_witness:
  "files sample_fs ''data/new.json'' = Absent \<and>
   load sample_fs ''data/new.json'' = Inr \<lparr>LastBalance = Fin 0, LastUpdated = [], DailySpends = []\<rparr> \<and>
   files sample_fs ''data/bad.json'' = Contents None \<and>
   Update (NewManager 7) sample_fs ''data/bad.json'' (Fin 90) may_1 =
     (Inl (DecodeHistory ''data/bad.json''), sample_fs)"
proof -
  have a: "files sample_fs ''data/new.json'' = Absent" by (simp add: sample_fs_def)
  have b: "files sample_fs ''data/bad.json'' = Contents None" by (simp add: sample_fs_def)
  show ?thesis
    using a b load_absent_or_corrupt [of sample_fs "''data/new.json''"]
      load_absent_or_corrupt [of sample_fs "''data/bad.json''" "NewManager 7" "Fin 90" may_1]
    by blast
qed

subsection \<open>A first check and the next day\<close>

text \<open>A service without history reports a balance of 100, and 90 the day after: no spend
  and a zero average on the first day; a spend of 10 and an average of 5 on the second.\<close>

lemma first_check:
  "Update (NewManager 7) sample_fs ''data/new.json'' (Fin 100) may_1 =
     (Inr \<lparr>Spend = Fin 0, Average = Fin 0\<rparr>,
      put sample_fs ''data/new.json''
        \<lparr>LastBalance = Fin 100, LastUpdated = Format_RFC3339 may_1,
         DailySpends = [\<lparr>Date = Format_date may_1, Amount = Fin 0\<rparr>]\<rparr>)"
  by (simp add: Update_eval sample_defs zeroRecord_def)

lemma second_check:
  "Update (NewManager 7)
     (put sample_fs ''data/new.json''
        \<lparr>LastBalance = Fin 100, LastUpdated = Format_RFC3339 may_1,
         DailySpends = [\<lparr>Date = Format_date may_1, Amount = Fin 0\<rparr>]\<rparr>)
     ''data/new.json'' (Fin 90) may_2 =
     (Inr \<lparr>Spend = Fin 10, Average = Fin 5\<rparr>,
      put sample_fs ''data/new.json''
        \<lparr>LastBalance = Fin 90, LastUpdated = Format_RFC3339 may_2,
         DailySpends = [\<lparr>Date = Format_date may_1, Amount = Fin 0\<rparr>,
                        \<lparr>Date = Format_date may_2, Amount = Fin 10\<rparr>]\<rparr>)"
  by (simp add: Update_eval sample_defs)

section \<open>Properties of package checker\<close>

subsection \<open>Static reminders\<close>

lemma dueTodayKind_not_reminderKind: "dueTodayKind \<noteq> reminderKind l n"
  by (simp add: dueTodayKind_def reminderKind_def fire_def alarm_clock_def)

text \<open>On a configuration that \<^verbatim>\<open>validate\<close> has accepted, the arithmetic of
  \<^verbatim>\<open>staticServiceNoticeKind\<close> stays within the range of \<^verbatim>\<open>int\<close>.\<close>

lemma validate_no_overflow:
  assumes "validate l svc = None" and "is_int64 (NotifyBeforeDays svc)"
  shows "is_int64 (BillingDay svc - NotifyBeforeDays svc) \<and> is_int64 (notifyDay svc)"
  using assms by (auto simp: validate_def is_int64_def notifyDay_def Let_def split: if_splits)

text \<open>
  C9. When today's day of the month is the billing day, the notice is the one for a payment
  due today, whatever \<^verbatim>\<open>notify_before_days\<close> is. Otherwise, when
  \<^verbatim>\<open>notify_before_days\<close> is positive, the advance reminder is produced exactly when today
  is the notify day (the billing day less \<^verbatim>\<open>notify_before_days\<close>, plus 30 when that is
  negative) and the notify day is positive. Otherwise there is no notice.
\<close>

theorem staticServiceNoticeKind_cases:
  "(Day now = BillingDay svc \<longrightarrow> staticServiceNoticeKind l svc now = (dueTodayKind, True)) \<and>
   (Day now \<noteq> BillingDay svc \<and> 0 < NotifyBeforeDays svc \<longrightarrow>
      (let diff = BillingDay svc - NotifyBeforeDays svc;
           nday = (if diff < 0 then diff + 30 else diff)
       in staticServiceNoticeKind l svc now =
            (if Day now = nday \<and> 0 < nday
             then (reminderKind l (NotifyBeforeDays svc), True) else ([], False)))) \<and>
   (Day now \<noteq> BillingDay svc \<and> NotifyBeforeDays svc \<le> 0 \<longrightarrow>
      staticServiceNoticeKind l svc now = ([], False))"
  by (auto simp: staticServiceNoticeKind_def notifyDay_def Let_def)

theorem staticServiceNoticeKind_cases_witness:
  "Day (on_day 5) = BillingDay rent \<and>
   staticServiceNoticeKind sample_lib rent (on_day 5) = (dueTodayKind, True) \<and>
   Day (on_day 5) = BillingDay (rent\<lparr>NotifyBeforeDays := 0\<rparr>) \<and>
   staticServiceNoticeKind sample_lib (rent\<lparr>NotifyBeforeDays := 0\<rparr>) (on_day 5) = (dueTodayKind, True) \<and>
   Day (on_day 2) \<noteq> BillingDay rent \<and> 0 < NotifyBeforeDays rent \<and>
   staticServiceNoticeKind sample_lib rent (on_day 2) = (reminderKind sample_lib 3, True) \<and>
   Day (on_day 2) \<noteq> BillingDay (rent\<lparr>NotifyBeforeDays := 0\<rparr>) \<and>
   NotifyBeforeDays (rent\<lparr>NotifyBeforeDays := 0\<rparr>) \<le> 0 \<and>
   staticServiceNoticeKind sample_lib (rent\<lparr>NotifyBeforeDays := 0\<rparr>) (on_day 2) = ([], False)"
  using staticServiceNoticeKind_cases [of "on_day 5" rent sample_lib]
    staticServiceNoticeKind_cases [of "on_day 5" "rent\<lparr>NotifyBeforeDays := 0\<rparr>" sample_lib]
    staticServiceNoticeKind_cases [of "on_day 2" rent sample_lib]
    staticServiceNoticeKind_cases [of "on_day 2" "rent\<lparr>NotifyBeforeDays := 0\<rparr>" sample_lib]
  by (simp add: rent_def on_day_def Let_def)

text \<open>
  C10. The evaluator returns one of three answers, of which the two notices differ: the
  notice for a payment due today, the advance reminder, or none. On the billing day the answer
  is the notice for a payment due today, and so not the advance reminder, also when the
  wrapped notify day is the billing day itself, as it is for a billing day from 1 to 29 with
  \<^verbatim>\<open>notify_before_days\<close> = 30.
\<close>

theorem staticServiceNoticeKind_due_today_first:
  "staticServiceNoticeKind l svc now \<in>
     {(dueTodayKind, True), (reminderKind l (NotifyBeforeDays svc), True), ([], False)} \<and>
   dueTodayKind \<noteq> reminderKind l (NotifyBeforeDays svc) \<and>
   (Day now = BillingDay svc \<longrightarrow>
      staticServiceNoticeKind l svc now = (dueTodayKind, True) \<and>
      staticServiceNoticeKind l svc now \<noteq> (reminderKind l (NotifyBeforeDays svc), True)) \<and>
   (1 \<le> BillingDay svc \<and> BillingDay svc \<le> 29 \<and> NotifyBeforeDays svc = 30 \<longrightarrow>
      notifyDay svc = BillingDay svc)"
proof -
  have "staticServiceNoticeKind l svc now \<in>
     {(dueTodayKind, True), (reminderKind l (NotifyBeforeDays svc), True), ([], False)}"
    by (simp add: staticServiceNoticeKind_def Let_def)
  moreover have "Day now = BillingDay svc \<longrightarrow>
      staticServiceNoticeKind l svc now = (dueTodayKind, True) \<and>
      staticServiceNoticeKind l svc now \<noteq> (reminderKind l (NotifyBeforeDays svc), True)"
    by (simp add: staticServiceNoticeKind_def Let_def dueTodayKind_not_reminderKind)
  moreover have "1 \<le> BillingDay svc \<and> BillingDay svc \<le> 29 \<and> NotifyBeforeDays svc = 30 \<longrightarrow>
      notifyDay svc = BillingDay svc"
    by (simp add: notifyDay_def Let_def)
  ultimately show ?thesis
    using dueTodayKind_not_reminderKind by blast
qed

theorem staticServiceNoticeKind_due_today_first_witness:
  "Day (on_day 5) = BillingDay (rent\<lparr>NotifyBeforeDays := 30\<rparr>) \<and>
   1 \<le> BillingDay (rent\<lparr>NotifyBeforeDays := 30\<rparr>) \<and>
   BillingDay (rent\<lparr>NotifyBeforeDays := 30\<rparr>) \<le> 29 \<and>
   NotifyBeforeDays (rent\<lparr>NotifyBeforeDays := 30\<rparr>) = 30 \<and>
   notifyDay (rent\<lparr>NotifyBeforeDays := 30\<rparr>) = 5 \<and>
   staticServiceNoticeKind sample_lib (rent\<lparr>NotifyBeforeDays := 30\<rparr>) (on_day 5) = (dueTodayKind, True) \<and>
   staticServiceNoticeKind sample_lib (rent\<lparr>NotifyBeforeDays := 30\<rparr>) (on_day 5) \<noteq> (reminderKind sample_lib 30, True)"
  using staticServiceNoticeKind_due_today_first [of sample_lib "rent\<lparr>NotifyBeforeDays := 30\<rparr>" "on_day 5"]
  by (simp add: rent_def on_day_def)

subsection \<open>The message of a service\<close>

lemma composeEntries_part_000_flag:
  "snd (composeEntries_part_000 l ow entries) = (ow \<or> (\<exists>e \<in> set entries. Warn e))"
proof (induction entries arbitrary: ow)
  case Nil
  then show ?case by simp
next
  case (Cons e es)
  let ?ow = "if Warn e then True else ow"
  obtain body final where r: "composeEntries_part_000 l ?ow es = (body, final)"
    by (cases "composeEntries_part_000 l ?ow es")
  from Cons.IH [of ?ow] r have "final = (?ow \<or> (\<exists>x \<in> set es. Warn x))" by simp
  with r show ?case by (auto simp: Let_def)
qed

lemma composeMessage_part_000_marker:
  assumes "\<exists>e \<in> set entries. Warn e"
  shows "suffix (''Service: '' @ serviceName @ '' !!!'') (composeMessage_part_000 l serviceName entries)"
proof -
  obtain body final where bf: "composeEntries_part_000 l False entries = (body, final)"
    by (cases "composeEntries_part_000 l False entries")
  with composeEntries_part_000_flag [of l False entries] assms have "final" by simp
  with bf show ?thesis
    by (simp add: composeMessage_part_000_def suffix_def)
qed

lemma composeMessage_part_000_no_marker:
  assumes "\<forall>e \<in> set entries. \<not> Warn e"
  shows "suffix (''Service: '' @ serviceName) (composeMessage_part_000 l serviceName entries)"
proof -
  obtain body final where bf: "composeEntries_part_000 l False entries = (body, final)"
    by (cases "composeEntries_part_000 l False entries")
  with composeEntries_part_000_flag [of l False entries] assms have "\<not> final" by simp
  with bf show ?thesis
    by (simp add: composeMessage_part_000_def suffix_def)
qed

lemma composeMessage_first_warns:
  "Warn entry \<Longrightarrow>
   prefix (''Service: '' @ serviceName @ '' !!!'' @ ''\<newline>\<newline>'')
     (composeMessage l serviceName billingMode (entry # rest))"
  by (simp add: composeMessage_def Let_def)

lemma composeMessage_first_quiet:
  "\<not> Warn entry \<Longrightarrow>
   prefix (''Service: '' @ serviceName @ ''\<newline>\<newline>'')
     (composeMessage l serviceName billingMode (entry # rest))"
  by (simp add: composeMessage_def Let_def)

text \<open>
  C6. The header of the message of an entity is to carry the marker \<^verbatim>\<open>" !!!"\<close> as soon as
  any of its readings warns, whichever it is. \<^verbatim>\<open>composeMessage\<close> of \<^verbatim>\<open>checker.go\<close>
  writes one header for each reading, before it has looked at the later readings: with a first
  reading that does not warn and a second that does, the first header is \<^verbatim>\<open>Service: api\<close>
  without the marker, and only the second header carries it. (The revision in
  \<^verbatim>\<open>part_000\<close>, with its single header after the loop, always has the marker then:
  \<open>composeMessage_part_000_marker\<close>.)
\<close>

theorem composeMessage_late_warning:
  "Warn reading_low \<and> \<not> Warn reading_ok \<and>
   composeMessage l ''api'' ''prepaid'' [reading_ok, reading_low] =
     ''Service: api\<newline>\<newline>''
     @ ''Balance: $'' @ Sprintf_f l 2 (Fin 500) @ ''\<newline>''
     @ chart_down @ '' Avg daily: '' @ Sprintf_f l 6 (Fin 10) @ ''\<newline>''
     @ calendar @ '' Enough for: '' @ Sprintf_f l 1 (Fin 50) @ '' days''
     @ ''\<newline>\<newline>''
     @ ''Service: api !!!\<newline>\<newline>''
     @ ''Balance: '' @ Sprintf_f l 2 (Fin 20) @ '' EUR\<newline>''
     @ chart_down @ '' Avg daily: '' @ Sprintf_f l 6 (Fin 10) @ ''\<newline>''
     @ calendar @ '' Enough for: '' @ Sprintf_f l 1 (Fin 2) @ '' days''"
  by (simp add: composeMessage_def reading_ok_def reading_low_def formatAmount_def formatDays_def
      euro_def pound_def yen_def Let_def)

subsection \<open>One run\<close>











lemma first_of_Some [simp]: "first_of (Some e) errs = Some e"
  by (simp add: first_of_def)




subsection \<open>The sample run, evaluated\<close>










subsection \<open>Continuing after an error\<close>



subsection \<open>Days left and the warning\<close>







end
